theory Spec2Isabelle
  imports Main "HOL-Library.AList" "HOL-Library.Word"
begin

section \<open>Row types of \<^verbatim>\<open>configobject/objecttypes\<close>\<close>

text \<open>
  The values a row hands to a statement have the Go type \<^verbatim>\<open>[]interface{}\<close>. A
  \<^verbatim>\<open>float64\<close> is carried as its 64 bits; no arithmetic is done on it.
\<close>

type_synonym float64 = "64 word"

datatype iface = String string | Float64 float64 | Bytes "8 word list" | NilValue

text \<open>
  What the two row types take from package \<^verbatim>\<open>utils\<close> and from \<^verbatim>\<open>fmt\<close>: the functions
  \<^verbatim>\<open>utils.Checksum\<close> and \<^verbatim>\<open>utils.EncodeChecksum\<close>, the tables \<^verbatim>\<open>utils.CommentEntryTypes\<close>
  and \<^verbatim>\<open>utils.Bool\<close> read at an index, and \<^verbatim>\<open>fmt.Sprintf("%.0f", x)\<close>.
\<close>

record utils =
  Checksum :: "string \<Rightarrow> iface"
  EncodeChecksum :: "string \<Rightarrow> iface"
  CommentEntryTypes :: "string \<Rightarrow> iface"
  Bool :: "bool \<Rightarrow> iface"
  Sprintf_f0 :: "float64 \<Rightarrow> string"

subsection \<open>HostgroupCustomvar\<close>

record HostgroupCustomvar =
  Id :: string
  HostgroupId :: string
  CustomvarId :: string
  EnvId :: string

definition HostgroupCustomvar_UpdateValues :: "utils \<Rightarrow> HostgroupCustomvar \<Rightarrow> iface list" where
  "HostgroupCustomvar_UpdateValues u c =
     (let v = []
      in v @ [Checksum u (HostgroupId c), Checksum u (CustomvarId c), Checksum u (EnvId c)])"

definition HostgroupCustomvar_InsertValues :: "utils \<Rightarrow> HostgroupCustomvar \<Rightarrow> iface list" where
  "HostgroupCustomvar_InsertValues u c =
     (let v = HostgroupCustomvar_UpdateValues u c
      in [Checksum u (Id c)] @ v)"

definition hostgroupcustomvar0 :: HostgroupCustomvar where
  "hostgroupcustomvar0 =
     \<lparr>Id = ''id0'', HostgroupId = ''group0'', CustomvarId = ''var0'', EnvId = ''env0''\<rparr>"

subsection \<open>ServiceComment\<close>

record ServiceComment =
  Id :: string
  EnvId :: string
  ServiceId :: string
  NameChecksum :: string
  PropertiesChecksum :: string
  Name :: string
  Author :: string
  Text :: string
  EntryType :: float64
  EntryTime :: float64
  IsPersistent :: bool
  ExpireTime :: float64
  ZoneId :: string

definition ServiceComment_UpdateValues :: "utils \<Rightarrow> ServiceComment \<Rightarrow> iface list" where
  "ServiceComment_UpdateValues u s =
     (let v = []
      in v @ [EncodeChecksum u (EnvId s),
              EncodeChecksum u (ServiceId s),
              EncodeChecksum u (NameChecksum s),
              EncodeChecksum u (PropertiesChecksum s),
              String (Name s),
              String (Author s),
              String (Text s),
              CommentEntryTypes u (Sprintf_f0 u (EntryType s)),
              Float64 (EntryTime s),
              Bool u (IsPersistent s),
              Float64 (ExpireTime s),
              EncodeChecksum u (ZoneId s)])"

definition ServiceComment_InsertValues :: "utils \<Rightarrow> ServiceComment \<Rightarrow> iface list" where
  "ServiceComment_InsertValues u s =
     (let v = ServiceComment_UpdateValues u s
      in [EncodeChecksum u (Id s)] @ v)"

definition servicecomment0 :: ServiceComment where
  "servicecomment0 =
     \<lparr>Id = ''id1'', EnvId = ''env1'', ServiceId = ''service1'', NameChecksum = ''n1'',
      PropertiesChecksum = ''p1'', Name = ''comment'', Author = ''admin'', Text = ''hello'',
      EntryType = 1, EntryTime = 2, IsPersistent = True, ExpireTime = 3, ZoneId = ''zone1''\<rparr>"

text \<open>A sample of what the rows take from outside, for the evaluation of a row.\<close>

definition utils0 :: utils where
  "utils0 =
     \<lparr>Checksum = (\<lambda>s. String (''sha1:'' @ s)),
      EncodeChecksum = (\<lambda>s. Bytes (map of_char s)),
      CommentEntryTypes = (\<lambda>k. if k = ''1'' then String ''comment'' else NilValue),
      Bool = (\<lambda>b. String (if b then ''y'' else ''n'')),
      Sprintf_f0 = (\<lambda>x. ''1'')\<rparr>"

section \<open>Data model of \<^verbatim>\<open>pkg/icingadb/sync.go\<close>\<close>

text \<open>
  The Go \<^verbatim>\<open>error\<close> interface. \<^verbatim>\<open>nil\<close> is \<open>None\<close> of \<open>error option\<close>. The two errors a
  \<^verbatim>\<open>context.Context\<close> reports are named; every other error carries its message.
\<close>

datatype error = Canceled | DeadlineExceeded | Failure string

text \<open>
  A checksum is an opaque byte string; \<open>None\<close> is the absent checksum of an entity of a
  subject without checksums.
\<close>

type_synonym Checksum = "8 word list option"

text \<open>
  An entity prototype is known to the synchronisation only through its Go type, an entity
  factory only through its identity.
\<close>

datatype Entity = EntityOfType string

datatype EntityFactoryFunc = FactoryNamed string

text \<open>
  Modelled from the spec: \<^verbatim>\<open>common.SyncSubject\<close> (package \<^verbatim>\<open>common\<close> is not among the
  sources), the entity prototype, the factory and the checksum flag, read in \<^verbatim>\<open>sync.go\<close>
  by the accessors \<^verbatim>\<open>Entity()\<close>, \<^verbatim>\<open>Factory()\<close> and \<^verbatim>\<open>WithChecksum()\<close>.
\<close>

record SyncSubject =
  Entity :: Entity
  Factory :: EntityFactoryFunc
  WithChecksum :: bool

text \<open>
  Modelled from the spec: \<^verbatim>\<open>EntitiesById\<close>, the type of the partitions of a delta
  (declared in \<^verbatim>\<open>delta.go\<close>, which is not among the sources): a mapping from id to the
  desired checksum, kept as an association list (the order of the list stands for
  the order in which Go happens to enumerate the map). \<^verbatim>\<open>Keys()\<close> lists the ids.
  The partition of the deletions is kept as the list of its ids, and \<^verbatim>\<open>IDs()\<close>, which
  hands them to the database, returns that list.
\<close>

type_synonym EntitiesById = "(string \<times> Checksum) list"

definition Keys :: "EntitiesById \<Rightarrow> string list" where
  "Keys m = map fst m"

definition IDs :: "string list \<Rightarrow> string list" where
  "IDs ids = ids"

text \<open>
  Modelled from the spec: the fields of \<^verbatim>\<open>Delta\<close> that \<^verbatim>\<open>sync.go\<close> reads (the struct is
  declared in \<^verbatim>\<open>delta.go\<close>): the three partitions, the subject, and what
  \<^verbatim>\<open>delta.Wait()\<close> returns (\<open>None\<close> for a delta that completed).
\<close>

record Delta =
  Create :: EntitiesById
  Update :: EntitiesById
  Delete :: "string list"
  Subject :: SyncSubject
  Wait :: "error option"

text \<open>
  Channels are named by the call that returns them, so that a channel handed to a later
  stage shows the whole pipeline behind it. Each producer returns a data channel and an
  error channel; both are named by the same term.
\<close>

datatype Fingerprinter = Fingerprint Entity

datatype stmt = BuildSelectStmt Entity Fingerprinter

datatype chan =
    redis_YieldAll SyncSubject
  | db_YieldAll EntityFactoryFunc stmt
  | HMYield string int int "string list"
  | CreateEntities EntityFactoryFunc chan nat
  | SetChecksums chan EntitiesById nat
  | Entities EntitiesById

text \<open>The functions started with \<^verbatim>\<open>g.Go\<close>.\<close>

datatype task =
    CreateStreamed chan
  | UpdateStreamed chan
  | db_Delete Entity "string list"
  | ApplyDelta_task Delta

datatype level = Debug | Info

datatype arg = Str string | Num nat

text \<open>
  What a run does, in program order: a call that returns channels, the registration of an
  error channel with the group (\<^verbatim>\<open>com.ErrgroupReceive(g, errs)\<close>), the start of a
  subtask (\<^verbatim>\<open>g.Go\<close>), a log line (durations are left out of the log fields).
\<close>

datatype event =
    Call chan
  | ErrgroupReceive chan
  | Go task
  | Log level string "arg list"

text \<open>
  A pair of id and checksum that reaches the delta, from the desired stream (Redis) or
  from the actual stream (the database). The two streams are drained concurrently, so
  what the delta sees is one sequence of arrivals in which the two streams are
  interleaved in any way.
\<close>

datatype arrival = Desired string Checksum | Actual string Checksum

text \<open>
  What the code takes from outside: \<^verbatim>\<open>runtime.NumCPU()\<close>, the helpers \<^verbatim>\<open>utils.Name\<close>
  and \<^verbatim>\<open>utils.Key\<close>, the order in which the pairs of the actual and of the desired
  channel reach the delta, what \<^verbatim>\<open>Wait()\<close> of the delta built inside \<^verbatim>\<open>Sync\<close> returns,
  and what \<^verbatim>\<open>g.Wait()\<close> of an \<^verbatim>\<open>errgroup\<close> returns for the functions registered with
  the group.
\<close>

record env =
  NumCPU :: nat
  Name :: "Entity \<Rightarrow> string"
  Key :: "string \<Rightarrow> char \<Rightarrow> string"
  arrivals :: "chan \<Rightarrow> chan \<Rightarrow> arrival list"
  delta_Wait :: "error option"
  group_Wait :: "event list \<Rightarrow> error option"

subsection \<open>Redis concurrency settings\<close>

definition count :: int where
  "count = push_bit 12 1"

definition concurrent :: int where
  "concurrent = push_bit 3 1"

subsection \<open>ApplyDelta\<close>

text \<open>
  The three blocks of \<^verbatim>\<open>ApplyDelta\<close>, each guarded by the size of its partition. The
  context every call takes as its first argument is the one of the group and is not
  written down; cancellation is not part of what a run records.
\<close>

definition ApplyDelta_Create :: "env \<Rightarrow> Delta \<Rightarrow> event list" where
  "ApplyDelta_Create e delta =
     (if length (Create delta) > 0 then
        (if WithChecksum (Subject delta) then
           (let pairs = HMYield (''icinga:'' @ Key e (Name e (Entity (Subject delta))) CHR '':'')
                          count concurrent (Keys (Create delta));
                entitiesWithoutChecksum = CreateEntities (Factory (Subject delta)) pairs (NumCPU e);
                entities = SetChecksums entitiesWithoutChecksum (Create delta) (NumCPU e)
            in [Call pairs, ErrgroupReceive pairs,
                Call entitiesWithoutChecksum, ErrgroupReceive entitiesWithoutChecksum,
                Call entities, ErrgroupReceive entities,
                Go (CreateStreamed entities)])
         else
           (let entities = Entities (Create delta)
            in [Call entities, Go (CreateStreamed entities)]))
      else [])"

definition ApplyDelta_Update :: "env \<Rightarrow> Delta \<Rightarrow> event list" where
  "ApplyDelta_Update e delta =
     (if length (Update delta) > 0 then
        (let pairs = HMYield (''icinga:'' @ Key e (Name e (Entity (Subject delta))) CHR '':'')
                       count concurrent (Keys (Update delta));
             entitiesWithoutChecksum = CreateEntities (Factory (Subject delta)) pairs (NumCPU e);
             entities = SetChecksums entitiesWithoutChecksum (Update delta) (NumCPU e)
         in [Log Info ''Updating %d rows of type %s''
               [Num (length (Update delta)), Str (Key e (Name e (Entity (Subject delta))) CHR '' '')],
             Call pairs, ErrgroupReceive pairs,
             Call entitiesWithoutChecksum, ErrgroupReceive entitiesWithoutChecksum,
             Call entities, ErrgroupReceive entities,
             Go (UpdateStreamed entities)])
      else [])"

definition ApplyDelta_Delete :: "env \<Rightarrow> Delta \<Rightarrow> event list" where
  "ApplyDelta_Delete e delta =
     (if length (Delete delta) > 0 then
        [Log Info ''Deleting %d rows of type %s''
           [Num (length (Delete delta)), Str (Key e (Name e (Entity (Subject delta))) CHR '' '')],
         Go (db_Delete (Entity (Subject delta)) (IDs (Delete delta)))]
      else [])"

text \<open>
  \<^verbatim>\<open>ApplyDelta\<close> returns what it did and its error value: the error of \<^verbatim>\<open>delta.Wait()\<close>
  at once, otherwise what \<^verbatim>\<open>g.Wait()\<close> returns for the group of the three blocks.
\<close>

definition ApplyDelta :: "env \<Rightarrow> Delta \<Rightarrow> event list \<times> error option" where
  "ApplyDelta e delta =
     (case Wait delta of
        Some err \<Rightarrow> ([], Some err)
      | None \<Rightarrow>
          (let g = ApplyDelta_Create e delta @ ApplyDelta_Update e delta @ ApplyDelta_Delete e delta
           in (g, group_Wait e g)))"

subsection \<open>The delta\<close>

text \<open>
  Modelled from the spec: \<^verbatim>\<open>NewDelta\<close> and the computation it starts (\<^verbatim>\<open>delta.go\<close> is
  not among the sources). The state of the computation is the triple of the desired
  mapping, \<open>Update\<close> and \<open>Delete\<close>. A pair from the desired stream is accumulated
  into the desired mapping. For a pair from the actual stream: an id absent from the
  desired mapping is appended to \<open>Delete\<close>; an id that is present is removed from
  the desired mapping, and is inserted into \<open>Update\<close> with the desired checksum when the
  subject has checksums and the two checksums differ. The pairs are taken in the order
  in which they arrive.
\<close>

fun drain ::
  "bool \<Rightarrow> arrival list \<Rightarrow> EntitiesById \<times> EntitiesById \<times> string list
     \<Rightarrow> EntitiesById \<times> EntitiesById \<times> string list" where
  "drain w [] st = st"
| "drain w (Desired k c # rest) (desired, update, delete) =
     drain w rest (AList.update k c desired, update, delete)"
| "drain w (Actual k c # rest) (desired, update, delete) =
     (case map_of desired k of
        None \<Rightarrow> drain w rest (desired, update, delete @ [k])
      | Some d \<Rightarrow>
          (if w \<and> d \<noteq> c
           then drain w rest (AList.delete k desired, AList.update k d update, delete)
           else drain w rest (AList.delete k desired, update, delete)))"

text \<open>
  Modelled from the spec: the delta of the arrivals for a subject. When both streams
  have closed, what remains of the desired mapping is \<open>Create\<close>.
\<close>

definition NewDelta :: "arrival list \<Rightarrow> SyncSubject \<Rightarrow> Delta" where
  "NewDelta sched subject =
     (case drain (WithChecksum subject) sched ([], [], []) of
        (create, update, delete) \<Rightarrow>
          \<lparr>Create = create, Update = update, Delete = delete, Subject = subject, Wait = None\<rparr>)"



text \<open>
  No desired pair arrives after an actual pair with the same id; \<open>seen\<close> holds the ids
  that have arrived from the actual stream.
\<close>

fun no_late_desired :: "string list \<Rightarrow> arrival list \<Rightarrow> bool" where
  "no_late_desired seen [] = True"
| "no_late_desired seen (Desired k c # rest) = (k \<notin> set seen \<and> no_late_desired seen rest)"
| "no_late_desired seen (Actual k c # rest) = no_late_desired (k # seen) rest"

subsection \<open>Sync\<close>

text \<open>
  \<^verbatim>\<open>Sync\<close> logs, asks Redis and the database for their streams, registers both error
  channels with its group and starts \<^verbatim>\<open>ApplyDelta\<close> on the delta of the two streams as
  the one subtask of the group. Its error value is \<^verbatim>\<open>g.Wait()\<close> of that group. The
  events of \<^verbatim>\<open>ApplyDelta\<close> follow those of the group.
\<close>

definition Sync :: "env \<Rightarrow> SyncSubject \<Rightarrow> event list \<times> error option" where
  "Sync e subject =
     (let desired = redis_YieldAll subject;
          actual = db_YieldAll (Factory subject)
                     (BuildSelectStmt (Entity subject) (Fingerprint (Entity subject)));
          delta = (NewDelta (arrivals e actual desired) subject)\<lparr>Wait := delta_Wait e\<rparr>;
          g = [Call desired, ErrgroupReceive desired,
               Call actual, ErrgroupReceive actual,
               Go (ApplyDelta_task delta)]
      in (Log Info ''Syncing %s'' [Str (Key e (Name e (Entity subject)) CHR '' '')]
            # g @ fst (ApplyDelta e delta),
          group_Wait e g))"

subsection \<open>SyncAfterDump\<close>

text \<open>
  What can be ready when the \<^verbatim>\<open>select\<close> of \<^verbatim>\<open>SyncAfterDump\<close> runs: the log ticker has a
  tick, the dump-done signal of a key has fired, the context is done and \<^verbatim>\<open>ctx.Err()\<close>
  reports the error given.
\<close>

datatype signal = Tick | DumpDone string | CtxDone error

text \<open>
  The \<^verbatim>\<open>select\<close> has three cases: the ticker, the dump-done signal of the key of the
  subject, and the context. The signal of another key is no case of it.
\<close>

fun is_case :: "string \<Rightarrow> signal \<Rightarrow> bool" where
  "is_case key Tick = True"
| "is_case key (DumpDone k) = (k = key)"
| "is_case key (CtxDone err) = True"

text \<open>
  One run of the \<^verbatim>\<open>select\<close>: \<open>ready\<close> is what is ready at that moment, the earliest
  first, and \<open>i\<close> is the draw of Go's random choice. If no case is ready the
  \<^verbatim>\<open>select\<close> blocks (\<open>None\<close>); otherwise it takes one of the ready cases, whichever
  the draw picks, with no priority among them.
\<close>

definition select_case :: "string \<Rightarrow> signal list \<Rightarrow> nat \<Rightarrow> signal option" where
  "select_case key ready i =
     (let cases = filter (is_case key) ready
      in if cases = [] then None else Some (cases ! (i mod length cases)))"

text \<open>
  The loop, over the successive runs of its \<^verbatim>\<open>select\<close>, each given by what is ready and
  by the draw. A run that blocks is followed by the next one. \<open>None\<close> is the loop still
  waiting when the runs given are used up.
\<close>

fun SyncAfterDump_loop ::
  "env \<Rightarrow> SyncSubject \<Rightarrow> string \<Rightarrow> string \<Rightarrow> bool \<Rightarrow> (signal list \<times> nat) list
     \<Rightarrow> (event list \<times> error option) option" where
  "SyncAfterDump_loop e subject typeName key loggedWaiting [] = None"
| "SyncAfterDump_loop e subject typeName key loggedWaiting ((ready, i) # runs) =
     (case select_case key ready i of
        None \<Rightarrow> SyncAfterDump_loop e subject typeName key loggedWaiting runs
      | Some Tick \<Rightarrow>
          (case SyncAfterDump_loop e subject typeName key True runs of
             None \<Rightarrow> None
           | Some (evs, r) \<Rightarrow>
               Some (Log Info ''Waiting for dump done signal'' [Str typeName, Str key] # evs, r))
      | Some (DumpDone k) \<Rightarrow>
          Some (Log (if loggedWaiting then Info else Debug) ''Starting sync''
                  [Str typeName, Str key] # fst (Sync e subject),
                snd (Sync e subject))
      | Some (CtxDone err) \<Rightarrow> Some ([], Some err))"

definition SyncAfterDump ::
  "env \<Rightarrow> SyncSubject \<Rightarrow> (signal list \<times> nat) list \<Rightarrow> (event list \<times> error option) option" where
  "SyncAfterDump e subject runs =
     (let typeName = Name e (Entity subject);
          key = ''icinga:'' @ Key e typeName CHR '':''
      in SyncAfterDump_loop e subject typeName key False runs)"


subsection \<open>Reading a run\<close>

text \<open>
  The channels returned by the calls of a run, the subtasks it started, and among
  them the multi-fetches, the streams given to the two streamed writers and the
  deletions.
\<close>

fun calls :: "event list \<Rightarrow> chan list" where
  "calls [] = []"
| "calls (Call c # evs) = c # calls evs"
| "calls (ev # evs) = calls evs"

fun started :: "event list \<Rightarrow> task list" where
  "started [] = []"
| "started (Go t # evs) = t # started evs"
| "started (ev # evs) = started evs"

fun hmyields :: "chan list \<Rightarrow> (string \<times> int \<times> int \<times> string list) list" where
  "hmyields [] = []"
| "hmyields (HMYield key n c keys # cs) = (key, n, c, keys) # hmyields cs"
| "hmyields (ch # cs) = hmyields cs"

fun created :: "task list \<Rightarrow> chan list" where
  "created [] = []"
| "created (CreateStreamed s # ts) = s # created ts"
| "created (t # ts) = created ts"

fun updated :: "task list \<Rightarrow> chan list" where
  "updated [] = []"
| "updated (UpdateStreamed s # ts) = s # updated ts"
| "updated (t # ts) = updated ts"

fun deleted :: "task list \<Rightarrow> (Entity \<times> string list) list" where
  "deleted [] = []"
| "deleted (db_Delete p ids # ts) = (p, ids) # deleted ts"
| "deleted (t # ts) = deleted ts"

subsection \<open>Sample subjects, deltas and environment\<close>

text \<open>
  A subject with checksums and one without, an environment, and the deltas of the
  scenarios of the specification: a mixed delta, a pure insert without checksums, a pure
  delete, a pure update, and a delta whose computation was cancelled.
\<close>

definition host :: SyncSubject where
  "host = \<lparr>Entity = EntityOfType ''Host'', Factory = FactoryNamed ''NewHost'',
            WithChecksum = True\<rparr>"

definition member :: SyncSubject where
  "member = \<lparr>Entity = EntityOfType ''Member'', Factory = FactoryNamed ''NewMember'',
              WithChecksum = False\<rparr>"

definition env0 :: env where
  "env0 = \<lparr>NumCPU = 4,
            Name = (\<lambda>t. case t of EntityOfType n \<Rightarrow> n),
            Key = (\<lambda>name sep. name),
            arrivals = (\<lambda>actual desired. []),
            delta_Wait = None,
            group_Wait = (\<lambda>g. None)\<rparr>"

definition delta_mixed :: Delta where
  "delta_mixed = \<lparr>Create = [(''x'', Some [0xAA])], Update = [(''z'', Some [0xCC])],
                   Delete = [''w''], Subject = host, Wait = None\<rparr>"

definition delta_insert :: Delta where
  "delta_insert = \<lparr>Create = [(''a'', None), (''b'', None), (''c'', None)], Update = [],
                    Delete = [], Subject = member, Wait = None\<rparr>"

definition delta_delete :: Delta where
  "delta_delete = \<lparr>Create = [], Update = [], Delete = [''a'', ''b''],
                    Subject = host, Wait = None\<rparr>"

definition delta_update :: Delta where
  "delta_update = \<lparr>Create = [], Update = [(''q'', Some [0x01])], Delete = [],
                    Subject = host, Wait = None\<rparr>"

definition delta_cancelled :: Delta where
  "delta_cancelled = \<lparr>Create = [(''x'', Some [0xAA])], Update = [(''z'', Some [0xCC])],
                       Delete = [''w''], Subject = host, Wait = Some Canceled\<rparr>"

section \<open>Properties\<close>

subsection \<open>Reading a concatenated run\<close>

lemma calls_append: "calls (xs @ ys) = calls xs @ calls ys"
  by (induction xs rule: calls.induct) simp_all

lemma started_append: "started (xs @ ys) = started xs @ started ys"
  by (induction xs rule: started.induct) simp_all

lemma hmyields_append: "hmyields (xs @ ys) = hmyields xs @ hmyields ys"
  by (induction xs rule: hmyields.induct) simp_all

lemma created_append: "created (xs @ ys) = created xs @ created ys"
  by (induction xs rule: created.induct) simp_all

lemma updated_append: "updated (xs @ ys) = updated xs @ updated ys"
  by (induction xs rule: updated.induct) simp_all

lemma deleted_append: "deleted (xs @ ys) = deleted xs @ deleted ys"
  by (induction xs rule: deleted.induct) simp_all

lemmas read_append =
  calls_append started_append hmyields_append created_append updated_append deleted_append

subsection \<open>The settings and the three blocks\<close>

lemma count_value: "count = 4096"
  by (simp add: count_def)

lemma concurrent_value: "concurrent = 8"
  by (simp add: concurrent_def)

lemma ApplyDelta_completed:
  "Wait delta = None \<Longrightarrow>
   fst (ApplyDelta e delta) =
     ApplyDelta_Create e delta @ ApplyDelta_Update e delta @ ApplyDelta_Delete e delta"
  by (simp add: ApplyDelta_def Let_def)

lemma ApplyDelta_failed:
  "Wait delta = Some err \<Longrightarrow> ApplyDelta e delta = ([], Some err)"
  by (simp add: ApplyDelta_def)

lemma started_Create:
  "started (ApplyDelta_Create e delta) =
     (if Create delta = [] then []
      else if WithChecksum (Subject delta)
      then [CreateStreamed (SetChecksums (CreateEntities (Factory (Subject delta))
              (HMYield (''icinga:'' @ Key e (Name e (Entity (Subject delta))) CHR '':'')
                 count concurrent (Keys (Create delta))) (NumCPU e)) (Create delta) (NumCPU e))]
      else [CreateStreamed (Entities (Create delta))])"
  by (simp add: ApplyDelta_Create_def Let_def)

lemma started_Update:
  "started (ApplyDelta_Update e delta) =
     (if Update delta = [] then []
      else [UpdateStreamed (SetChecksums (CreateEntities (Factory (Subject delta))
              (HMYield (''icinga:'' @ Key e (Name e (Entity (Subject delta))) CHR '':'')
                 count concurrent (Keys (Update delta))) (NumCPU e)) (Update delta) (NumCPU e))])"
  by (simp add: ApplyDelta_Update_def Let_def)

lemma started_Delete:
  "started (ApplyDelta_Delete e delta) =
     (if Delete delta = [] then []
      else [db_Delete (Entity (Subject delta)) (IDs (Delete delta))])"
  by (simp add: ApplyDelta_Delete_def)

lemma calls_Create:
  "calls (ApplyDelta_Create e delta) =
     (if Create delta = [] then []
      else if WithChecksum (Subject delta)
      then [HMYield (''icinga:'' @ Key e (Name e (Entity (Subject delta))) CHR '':'')
              count concurrent (Keys (Create delta)),
            CreateEntities (Factory (Subject delta))
              (HMYield (''icinga:'' @ Key e (Name e (Entity (Subject delta))) CHR '':'')
                 count concurrent (Keys (Create delta))) (NumCPU e),
            SetChecksums (CreateEntities (Factory (Subject delta))
              (HMYield (''icinga:'' @ Key e (Name e (Entity (Subject delta))) CHR '':'')
                 count concurrent (Keys (Create delta))) (NumCPU e)) (Create delta) (NumCPU e)]
      else [Entities (Create delta)])"
  by (simp add: ApplyDelta_Create_def Let_def)

lemma calls_Update:
  "calls (ApplyDelta_Update e delta) =
     (if Update delta = [] then []
      else [HMYield (''icinga:'' @ Key e (Name e (Entity (Subject delta))) CHR '':'')
              count concurrent (Keys (Update delta)),
            CreateEntities (Factory (Subject delta))
              (HMYield (''icinga:'' @ Key e (Name e (Entity (Subject delta))) CHR '':'')
                 count concurrent (Keys (Update delta))) (NumCPU e),
            SetChecksums (CreateEntities (Factory (Subject delta))
              (HMYield (''icinga:'' @ Key e (Name e (Entity (Subject delta))) CHR '':'')
                 count concurrent (Keys (Update delta))) (NumCPU e)) (Update delta) (NumCPU e)])"
  by (simp add: ApplyDelta_Update_def Let_def)

lemma calls_Delete: "calls (ApplyDelta_Delete e delta) = []"
  by (simp add: ApplyDelta_Delete_def)

lemmas ApplyDelta_read =
  started_Create started_Update started_Delete calls_Create calls_Update calls_Delete

lemmas samples =
  host_def member_def env0_def delta_mixed_def delta_insert_def delta_delete_def
  delta_update_def delta_cancelled_def

subsection \<open>The create block\<close>

text \<open>
  Claim C1. For a completed delta (\<open>Wait delta = None\<close>) with a non-empty \<open>Create\<close>
  partition, \<^verbatim>\<open>ApplyDelta\<close> branches on \<^verbatim>\<open>WithChecksum\<close>. With checksums its first seven
  steps are the multi-fetch \<^verbatim>\<open>HMYield\<close> on the keys of \<open>Create\<close>, \<^verbatim>\<open>CreateEntities\<close>
  on its pairs and \<^verbatim>\<open>SetChecksums\<close> with the \<open>Create\<close> mapping, each followed by the
  registration of its error channel, and the start of \<^verbatim>\<open>CreateStreamed\<close> on the result.
  Without checksums its first two steps are \<^verbatim>\<open>delta.Create.Entities\<close> and the start of
  \<^verbatim>\<open>CreateStreamed\<close> on that channel, and no further call is made before the update
  block. In both cases this is the only stream given to \<^verbatim>\<open>CreateStreamed\<close> in the run.
\<close>

theorem ApplyDelta_create_stream:
  assumes "Wait delta = None" and "Create delta \<noteq> []"
  shows "let tr = fst (ApplyDelta e delta);
             pairs = HMYield (''icinga:'' @ Key e (Name e (Entity (Subject delta))) CHR '':'')
                       count concurrent (Keys (Create delta));
             hydrated = CreateEntities (Factory (Subject delta)) pairs (NumCPU e);
             bound = SetChecksums hydrated (Create delta) (NumCPU e);
             shells = Entities (Create delta)
         in (WithChecksum (Subject delta) \<longrightarrow>
               take 7 tr = [Call pairs, ErrgroupReceive pairs,
                            Call hydrated, ErrgroupReceive hydrated,
                            Call bound, ErrgroupReceive bound,
                            Go (CreateStreamed bound)]
               \<and> created (started tr) = [bound])
          \<and> (\<not> WithChecksum (Subject delta) \<longrightarrow>
               take 2 tr = [Call shells, Go (CreateStreamed shells)]
               \<and> created (started tr) = [shells]
               \<and> calls tr = shells # calls (ApplyDelta_Update e delta))"
proof -
  have tr: "fst (ApplyDelta e delta) =
      ApplyDelta_Create e delta @ ApplyDelta_Update e delta @ ApplyDelta_Delete e delta"
    using assms(1) by (rule ApplyDelta_completed)
  have rest: "created (started (ApplyDelta_Update e delta @ ApplyDelta_Delete e delta)) = []"
    by (simp add: read_append ApplyDelta_read)
  have only: "created (started (fst (ApplyDelta e delta))) =
      created (started (ApplyDelta_Create e delta))"
    using rest by (simp add: tr read_append)
  show ?thesis
  proof (cases "WithChecksum (Subject delta)")
    case True
    with assms(2) have "length (ApplyDelta_Create e delta) = 7"
      by (simp add: ApplyDelta_Create_def Let_def)
    then have "take 7 (fst (ApplyDelta e delta)) = ApplyDelta_Create e delta"
      by (simp add: tr)
    with only show ?thesis
      using True assms(2) by (simp add: Let_def ApplyDelta_Create_def)
  next
    case False
    with assms(2) have "length (ApplyDelta_Create e delta) = 2"
      by (simp add: ApplyDelta_Create_def Let_def)
    then have "take 2 (fst (ApplyDelta e delta)) = ApplyDelta_Create e delta"
      by (simp add: tr)
    moreover have "calls (fst (ApplyDelta e delta)) =
        calls (ApplyDelta_Create e delta) @ calls (ApplyDelta_Update e delta)"
      by (simp add: tr read_append calls_Delete)
    ultimately show ?thesis
      using only False assms(2) by (simp add: Let_def ApplyDelta_Create_def)
  qed
qed

theorem ApplyDelta_create_stream_witness:
  "Wait delta_mixed = None \<and> Create delta_mixed \<noteq> [] \<and> WithChecksum (Subject delta_mixed)
   \<and> created (started (fst (ApplyDelta env0 delta_mixed))) =
       [SetChecksums (CreateEntities (FactoryNamed ''NewHost'')
          (HMYield ''icinga:Host'' 4096 8 [''x'']) 4) [(''x'', Some [0xAA])] 4]
   \<and> Wait delta_insert = None \<and> Create delta_insert \<noteq> []
   \<and> \<not> WithChecksum (Subject delta_insert)
   \<and> take 2 (fst (ApplyDelta env0 delta_insert)) =
       [Call (Entities [(''a'', None), (''b'', None), (''c'', None)]),
        Go (CreateStreamed (Entities [(''a'', None), (''b'', None), (''c'', None)]))]
   \<and> calls (fst (ApplyDelta env0 delta_insert)) =
       [Entities [(''a'', None), (''b'', None), (''c'', None)]]"
  using ApplyDelta_create_stream [of delta_mixed env0]
    ApplyDelta_create_stream [of delta_insert env0]
  by (simp add: samples Let_def Keys_def count_def concurrent_def ApplyDelta_Update_def)

subsection \<open>The delta\<close>




text \<open>The drain-first order, in which the whole desired stream precedes the actual one.\<close>

lemma no_late_desired_actual:
  "no_late_desired seen (map (\<lambda>(k, c). Actual k c) A)"
  by (induction A arbitrary: seen) auto

lemma no_late_desired_sequential:
  "no_late_desired [] (map (\<lambda>(k, c). Desired k c) D @ map (\<lambda>(k, c). Actual k c) A)"
  by (induction D) (auto simp: no_late_desired_actual)



text \<open>Without checksums nothing is put into \<open>Update\<close>, in whatever order the pairs arrive.\<close>

lemma drain_no_checksum:
  "\<not> w \<Longrightarrow> fst (snd (drain w s (d, u, del))) = u"
proof (induction s arbitrary: d u del)
  case Nil
  then show ?case by simp
next
  case (Cons a s)
  show ?case
  proof (cases a)
    case (Desired k c)
    with Cons show ?thesis by simp
  next
    case (Actual k c)
    with Cons show ?thesis by (cases "map_of d k") simp_all
  qed
qed


lemma NewDelta_fields:
  "Create (NewDelta sched subject) = fst (drain (WithChecksum subject) sched ([], [], []))"
  "Update (NewDelta sched subject) = fst (snd (drain (WithChecksum subject) sched ([], [], [])))"
  "Delete (NewDelta sched subject) = snd (snd (drain (WithChecksum subject) sched ([], [], [])))"
  by (simp_all add: NewDelta_def split: prod.splits)

lemma NewDelta_no_checksum:
  "\<not> WithChecksum subject \<Longrightarrow> Update (NewDelta sched subject) = []"
  by (simp add: NewDelta_fields drain_no_checksum)




subsection \<open>The update block\<close>

text \<open>
  Claim C2. For a completed delta with a non-empty \<open>Update\<close> partition, whatever the
  subject and the other partitions are, \<^verbatim>\<open>ApplyDelta\<close> calls \<^verbatim>\<open>HMYield\<close> on the keys of
  \<open>Update\<close>, \<^verbatim>\<open>CreateEntities\<close> on its pairs and \<^verbatim>\<open>SetChecksums\<close> with the \<open>Update\<close>
  mapping, after the calls of the create block, and gives the result, and nothing else,
  to \<^verbatim>\<open>UpdateStreamed\<close>. A delta built for a subject without checksums has an empty
  \<open>Update\<close> partition, in whatever order the pairs of the two streams arrive, so this
  path is taken for subjects with checksums only.
\<close>

theorem ApplyDelta_update_stream:
  assumes "Wait delta = None" and "Update delta \<noteq> []"
  shows "let tr = fst (ApplyDelta e delta);
             pairs = HMYield (''icinga:'' @ Key e (Name e (Entity (Subject delta))) CHR '':'')
                       count concurrent (Keys (Update delta));
             hydrated = CreateEntities (Factory (Subject delta)) pairs (NumCPU e);
             bound = SetChecksums hydrated (Update delta) (NumCPU e)
         in updated (started tr) = [bound]
          \<and> calls tr = calls (ApplyDelta_Create e delta) @ [pairs, hydrated, bound]
          \<and> (\<not> WithChecksum subject \<longrightarrow> Update (NewDelta sched subject) = [])"
proof -
  have tr: "fst (ApplyDelta e delta) =
      ApplyDelta_Create e delta @ ApplyDelta_Update e delta @ ApplyDelta_Delete e delta"
    using assms(1) by (rule ApplyDelta_completed)
  have "updated (started (ApplyDelta_Create e delta)) = []"
    by (simp add: started_Create)
  moreover have "updated (started (ApplyDelta_Delete e delta)) = []"
    by (simp add: started_Delete)
  ultimately have u: "updated (started (fst (ApplyDelta e delta))) =
      updated (started (ApplyDelta_Update e delta))"
    by (simp add: tr read_append)
  have c: "calls (fst (ApplyDelta e delta)) =
      calls (ApplyDelta_Create e delta) @ calls (ApplyDelta_Update e delta)"
    by (simp add: tr read_append calls_Delete)
  have n: "\<not> WithChecksum subject \<longrightarrow> Update (NewDelta sched subject) = []"
    by (simp add: NewDelta_no_checksum)
  show ?thesis
    using assms(2) n by (simp add: Let_def u c started_Update calls_Update)
qed

theorem ApplyDelta_update_stream_witness:
  "Wait delta_mixed = None \<and> Update delta_mixed \<noteq> []
   \<and> updated (started (fst (ApplyDelta env0 delta_mixed))) =
       [SetChecksums (CreateEntities (FactoryNamed ''NewHost'')
          (HMYield ''icinga:Host'' 4096 8 [''z'']) 4) [(''z'', Some [0xCC])] 4]
   \<and> \<not> WithChecksum member
   \<and> Update (NewDelta [Actual ''w'' (Some [0x04]), Desired ''y'' (Some [0x02]),
                        Actual ''y'' (Some [0x03]), Desired ''x'' (Some [0x01])] member) = []"
  using ApplyDelta_update_stream [of delta_mixed env0 member
      "[Actual ''w'' (Some [0x04]), Desired ''y'' (Some [0x02]),
        Actual ''y'' (Some [0x03]), Desired ''x'' (Some [0x01])]"]
  by (simp add: samples Let_def Keys_def count_def concurrent_def)

subsection \<open>Which subtasks are started\<close>

text \<open>
  Claim C3. For a completed delta, \<^verbatim>\<open>ApplyDelta\<close> starts a subtask for a partition if
  and only if the partition is non-empty, one subtask for each. With \<open>Create\<close> empty
  every multi-fetch of the run is on the keys of \<open>Update\<close>, with \<open>Update\<close> empty every
  multi-fetch is on the keys of \<open>Create\<close>, and with both empty no call is made at all. A
  non-empty \<open>Delete\<close> is handed over as the one call \<^verbatim>\<open>db.Delete\<close> with the prototype and
  the list of ids as it is. With \<open>Create\<close> and \<open>Update\<close> empty and \<open>Delete\<close> non-empty
  that call is the only subtask.
\<close>

theorem ApplyDelta_subtasks:
  assumes "Wait delta = None"
  shows "let tr = fst (ApplyDelta e delta)
         in (created (started tr) \<noteq> [] \<longleftrightarrow> Create delta \<noteq> [])
          \<and> (updated (started tr) \<noteq> [] \<longleftrightarrow> Update delta \<noteq> [])
          \<and> (deleted (started tr) \<noteq> [] \<longleftrightarrow> Delete delta \<noteq> [])
          \<and> length (started tr) =
              (if Create delta = [] then 0 else 1) + (if Update delta = [] then 0 else 1)
                + (if Delete delta = [] then 0 else 1)
          \<and> (Create delta = [] \<longrightarrow>
                (\<forall>(key, n, c, keys) \<in> set (hmyields (calls tr)). keys = Keys (Update delta)))
          \<and> (Update delta = [] \<longrightarrow>
                (\<forall>(key, n, c, keys) \<in> set (hmyields (calls tr)). keys = Keys (Create delta)))
          \<and> (Create delta = [] \<and> Update delta = [] \<longrightarrow> calls tr = [])
          \<and> (Delete delta \<noteq> [] \<longrightarrow>
                deleted (started tr) = [(Entity (Subject delta), Delete delta)])
          \<and> (Create delta = [] \<and> Update delta = [] \<and> Delete delta \<noteq> [] \<longrightarrow>
                started tr = [db_Delete (Entity (Subject delta)) (Delete delta)])"
proof -
  have tr: "fst (ApplyDelta e delta) =
      ApplyDelta_Create e delta @ ApplyDelta_Update e delta @ ApplyDelta_Delete e delta"
    using assms by (rule ApplyDelta_completed)
  show ?thesis
    by (simp add: Let_def tr read_append ApplyDelta_read IDs_def)
qed

theorem ApplyDelta_subtasks_witness:
  "Wait delta_delete = None \<and> Create delta_delete = [] \<and> Update delta_delete = []
   \<and> Delete delta_delete \<noteq> []
   \<and> started (fst (ApplyDelta env0 delta_delete)) = [db_Delete (EntityOfType ''Host'') [''a'', ''b'']]
   \<and> calls (fst (ApplyDelta env0 delta_delete)) = []
   \<and> Wait delta_update = None \<and> Create delta_update = []
   \<and> hmyields (calls (fst (ApplyDelta env0 delta_update))) = [(''icinga:Host'', 4096, 8, [''q''])]
   \<and> Keys (Update delta_update) = [''q'']
   \<and> Wait delta_insert = None \<and> Update delta_insert = []
   \<and> length (started (fst (ApplyDelta env0 delta_insert))) = 1
   \<and> Wait delta_mixed = None \<and> Update delta_mixed \<noteq> [] \<and> Create delta_mixed \<noteq> []
   \<and> length (started (fst (ApplyDelta env0 delta_mixed))) = 3"
  using ApplyDelta_subtasks [of delta_delete env0] ApplyDelta_subtasks [of delta_update env0]
    ApplyDelta_subtasks [of delta_insert env0] ApplyDelta_subtasks [of delta_mixed env0]
  by (simp add: samples Let_def Keys_def count_def concurrent_def ApplyDelta_completed
      read_append ApplyDelta_read)

subsection \<open>The settings of the multi-fetch\<close>

text \<open>
  Claim C7. \<open>count\<close> is 4096 and \<open>concurrent\<close> is 8, and every \<^verbatim>\<open>HMYield\<close> call of
  \<^verbatim>\<open>ApplyDelta\<close>, for \<open>Create\<close> as for \<open>Update\<close>, is made with 4096 and 8.
\<close>

theorem ApplyDelta_multi_fetch_settings:
  "count = 4096 \<and> concurrent = 8
   \<and> (\<forall>(key, n, c, keys) \<in> set (hmyields (calls (fst (ApplyDelta e delta)))).
         n = 4096 \<and> c = 8)"
proof (cases "Wait delta")
  case None
  then have tr: "fst (ApplyDelta e delta) =
      ApplyDelta_Create e delta @ ApplyDelta_Update e delta @ ApplyDelta_Delete e delta"
    by (rule ApplyDelta_completed)
  show ?thesis
    by (simp add: tr read_append ApplyDelta_read count_value concurrent_value)
next
  case (Some err)
  then show ?thesis
    by (simp add: ApplyDelta_failed count_value concurrent_value)
qed

theorem ApplyDelta_multi_fetch_settings_witness:
  "hmyields (calls (fst (ApplyDelta env0 delta_mixed))) =
     [(''icinga:Host'', 4096, 8, [''x'']), (''icinga:Host'', 4096, 8, [''z''])]"
  using ApplyDelta_multi_fetch_settings [of env0 delta_mixed]
  by (simp add: samples Keys_def ApplyDelta_completed read_append ApplyDelta_read)

subsection \<open>A delta that failed\<close>

text \<open>
  Claim C9. If \<^verbatim>\<open>delta.Wait()\<close> returns an error, \<^verbatim>\<open>ApplyDelta\<close> returns that error and
  has done nothing: no call, no registration, no subtask.
\<close>

theorem ApplyDelta_Wait_error:
  assumes "Wait delta = Some err"
  shows "ApplyDelta e delta = ([], Some err)"
  using assms by (simp add: ApplyDelta_def)

theorem ApplyDelta_Wait_error_witness:
  "Wait delta_cancelled = Some Canceled \<and> ApplyDelta env0 delta_cancelled = ([], Some Canceled)"
  using ApplyDelta_Wait_error [of delta_cancelled Canceled env0]
  by (simp add: samples)

subsection \<open>Waiting for the dump\<close>






subsection \<open>The Redis key of a subject\<close>

text \<open>
  Claim C8. The key whose dump-done signal \<^verbatim>\<open>SyncAfterDump\<close> answers (the one
  signal ready at its \<^verbatim>\<open>select\<close>, whatever the draw) is \<^verbatim>\<open>icinga:\<close>
  followed by \<^verbatim>\<open>utils.Key\<close> of the type name of the subject's entity with the separator
  \<^verbatim>\<open>:\<close>, and every \<^verbatim>\<open>HMYield\<close> call of \<^verbatim>\<open>ApplyDelta\<close> on a delta of that subject, for
  \<open>Create\<close> as for \<open>Update\<close>, is made on that same key.
\<close>

theorem redis_key_shared:
  "(SyncAfterDump e subject [([DumpDone k], i)] \<noteq> None
      \<longleftrightarrow> k = ''icinga:'' @ Key e (Name e (Entity subject)) CHR '':'')
   \<and> (Subject delta = subject \<longrightarrow>
        (\<forall>(key, n, c, keys) \<in> set (hmyields (calls (fst (ApplyDelta e delta)))).
           key = ''icinga:'' @ Key e (Name e (Entity subject)) CHR '':''))"
proof -
  have 1: "SyncAfterDump e subject [([DumpDone k], i)] \<noteq> None
      \<longleftrightarrow> k = ''icinga:'' @ Key e (Name e (Entity subject)) CHR '':''"
    by (simp add: SyncAfterDump_def select_case_def Let_def)
  have 2: "\<forall>(key, n, c, keys) \<in> set (hmyields (calls (fst (ApplyDelta e delta)))).
      key = ''icinga:'' @ Key e (Name e (Entity (Subject delta))) CHR '':''"
  proof (cases "Wait delta")
    case None
    then have tr: "fst (ApplyDelta e delta) =
        ApplyDelta_Create e delta @ ApplyDelta_Update e delta @ ApplyDelta_Delete e delta"
      by (rule ApplyDelta_completed)
    show ?thesis
      by (simp add: tr read_append ApplyDelta_read)
  next
    case (Some err)
    then show ?thesis
      by (simp add: ApplyDelta_failed)
  qed
  from 1 2 show ?thesis by blast
qed

theorem redis_key_shared_witness:
  "SyncAfterDump env0 host [([DumpDone ''icinga:Host''], 0)] \<noteq> None
   \<and> SyncAfterDump env0 host [([DumpDone ''icinga:Member''], 0)] = None
   \<and> Subject delta_mixed = host
   \<and> map fst (hmyields (calls (fst (ApplyDelta env0 delta_mixed)))) =
       [''icinga:Host'', ''icinga:Host'']"
  using redis_key_shared [of env0 host "''icinga:Host''" 0 delta_mixed]
    redis_key_shared [of env0 host "''icinga:Member''" 0 delta_mixed]
  by (simp add: samples Keys_def SyncAfterDump_def select_case_def ApplyDelta_completed
      read_append ApplyDelta_read)

subsection \<open>The values of a row\<close>

text \<open>
  Claim C10. For a \<^verbatim>\<open>HostgroupCustomvar\<close> the values to insert are \<^verbatim>\<open>utils.Checksum\<close> of its
  id followed by the values to update; for a \<^verbatim>\<open>ServiceComment\<close> they are
  \<^verbatim>\<open>utils.EncodeChecksum\<close> of its id followed by the values to update. So for both rows
  there is one value more to insert than to update.
\<close>

theorem InsertValues_UpdateValues:
  "HostgroupCustomvar_InsertValues u c =
     [Checksum u (HostgroupCustomvar.Id c)] @ HostgroupCustomvar_UpdateValues u c
   \<and> ServiceComment_InsertValues u s =
     [EncodeChecksum u (ServiceComment.Id s)] @ ServiceComment_UpdateValues u s
   \<and> length (HostgroupCustomvar_InsertValues u c) =
       length (HostgroupCustomvar_UpdateValues u c) + 1
   \<and> length (ServiceComment_InsertValues u s) = length (ServiceComment_UpdateValues u s) + 1"
proof -
  have h: "HostgroupCustomvar_InsertValues u c =
      [Checksum u (HostgroupCustomvar.Id c)] @ HostgroupCustomvar_UpdateValues u c"
    unfolding HostgroupCustomvar_InsertValues_def Let_def ..
  have m: "ServiceComment_InsertValues u s =
      [EncodeChecksum u (ServiceComment.Id s)] @ ServiceComment_UpdateValues u s"
    unfolding ServiceComment_InsertValues_def Let_def ..
  have "length (HostgroupCustomvar_InsertValues u c) =
      length (HostgroupCustomvar_UpdateValues u c) + 1"
    by (simp add: h)
  moreover have "length (ServiceComment_InsertValues u s) =
      length (ServiceComment_UpdateValues u s) + 1"
    by (simp add: m)
  ultimately show ?thesis
    using h m by simp
qed

theorem InsertValues_UpdateValues_witness:
  "HostgroupCustomvar_InsertValues utils0 hostgroupcustomvar0 =
     [String ''sha1:id0'', String ''sha1:group0'', String ''sha1:var0'', String ''sha1:env0'']
   \<and> length (HostgroupCustomvar_UpdateValues utils0 hostgroupcustomvar0) = 3
   \<and> length (ServiceComment_InsertValues utils0 servicecomment0) = 13
   \<and> length (ServiceComment_UpdateValues utils0 servicecomment0) = 12
   \<and> hd (ServiceComment_InsertValues utils0 servicecomment0) = Bytes (map of_char ''id1'')"
  using InsertValues_UpdateValues [of utils0 hostgroupcustomvar0 servicecomment0]
  by (simp add: HostgroupCustomvar_UpdateValues_def ServiceComment_UpdateValues_def
      utils0_def hostgroupcustomvar0_def servicecomment0_def Let_def)

end
